theory Spec2Isabelle
  imports Main
begin

section \<open>Data model\<close>

text \<open>
  \<^verbatim>\<open>flatten_json\<close> of \<^verbatim>\<open>neuralpredictors/utils.py\<close> walks a nested Python
  dictionary. The only test it makes on a value is \<^verbatim>\<open>isinstance(x, dict)\<close>, so a value is
  either a dictionary (an insertion-ordered list of key/value pairs) or anything else,
  which is a leaf. Keys are strings: the code concatenates them with \<^verbatim>\<open>"_"\<close>.
\<close>

datatype 'v json = Leaf 'v | Dict "(string \<times> 'v json) list"

text \<open>
  The exceptions the modelled code can raise. \<open>ValueError\<close> carries the message the
  source passes to it; \<open>KeyError\<close> carries the name \<^verbatim>\<open>h5py\<close> could not open;
  \<open>TypeError\<close> is what \<^verbatim>\<open>h5py\<close> raises for \<^verbatim>\<open>group[()]\<close>; \<open>UnicodeDecodeError\<close>
  is what \<^verbatim>\<open>numpy\<close> raises when \<^verbatim>\<open>astype(str)\<close> meets a byte outside ASCII;
  \<open>AttributeError\<close> is \<^verbatim>\<open>.items()\<close> on a dataset; \<open>OSError\<close> is a file that cannot
  be opened.
\<close>

datatype error =
    ValueError string
  | KeyError string
  | TypeError
  | UnicodeDecodeError
  | AttributeError
  | OSError string

text \<open>A Python \<^verbatim>\<open>dict\<close> with string keys, in insertion order.\<close>

type_synonym 'a pydict = "(string \<times> 'a) list"

text \<open>\<^verbatim>\<open>k in d\<close>\<close>

definition in_out :: "string \<Rightarrow> 'a pydict \<Rightarrow> bool" where
  "in_out k out = (k \<in> set (map fst out))"

text \<open>
  \<^verbatim>\<open>d[k] = v\<close>: an existing key keeps its position and takes the new value, a new key
  goes to the end.
\<close>

fun dict_set :: "string \<Rightarrow> 'a \<Rightarrow> 'a pydict \<Rightarrow> 'a pydict" where
  "dict_set k v [] = [(k, v)]"
| "dict_set k v ((k', v') # rest) =
     (if k' = k then (k, v) # rest else (k', v') # dict_set k v rest)"

section \<open>The flattener\<close>

text \<open>
  \<^verbatim>\<open>
  out = {}
  def flatten(x, name=""):
      if isinstance(x, dict):
          for key, value in x.items():
              flatten(value, (name if keep_nested_name else "") + key + "_")
      else:
          if name[:-1] in out:
              raise ValueError("Multiple entries with identical names")
          out[name[:-1]] = x
  flatten(nested_dict)
  return out
  \<close>
  The closure variable \<^verbatim>\<open>out\<close> is threaded through as an argument and returned; the
  \<^verbatim>\<open>for\<close> loop over the items is \<open>flatten_items\<close>. \<^verbatim>\<open>name[:-1]\<close> drops the last
  character and is the empty string on the empty string, which is \<^const>\<open>butlast\<close>.
\<close>

fun flatten :: "bool \<Rightarrow> 'v json \<Rightarrow> string \<Rightarrow> 'v pydict \<Rightarrow> error + 'v pydict"
and flatten_items ::
  "bool \<Rightarrow> (string \<times> 'v json) list \<Rightarrow> string \<Rightarrow> 'v pydict \<Rightarrow> error + 'v pydict"
where
  "flatten keep_nested_name (Dict items) name out =
     flatten_items keep_nested_name items name out"
| "flatten keep_nested_name (Leaf x) name out =
     (if in_out (butlast name) out
      then Inl (ValueError ''Multiple entries with identical names'')
      else Inr (dict_set (butlast name) x out))"
| "flatten_items keep_nested_name [] name out = Inr out"
| "flatten_items keep_nested_name ((key, v) # rest) name out =
     (case flatten keep_nested_name v
             ((if keep_nested_name then name else '''') @ key @ ''_'') out of
        Inl e \<Rightarrow> Inl e
      | Inr out' \<Rightarrow> flatten_items keep_nested_name rest name out')"

definition flatten_json :: "'v json \<Rightarrow> bool \<Rightarrow> error + 'v pydict" where
  "flatten_json nested_dict keep_nested_name = flatten keep_nested_name nested_dict '''' []"

subsection \<open>The keys the traversal computes\<close>

text \<open>
  The entries the traversal would record, in traversal order, were there no collision
  check: each leaf with the key computed for it.
\<close>

fun entries :: "bool \<Rightarrow> 'v json \<Rightarrow> string \<Rightarrow> 'v pydict"
and entries_items :: "bool \<Rightarrow> (string \<times> 'v json) list \<Rightarrow> string \<Rightarrow> 'v pydict"
where
  "entries keep_nested_name (Dict items) name = entries_items keep_nested_name items name"
| "entries keep_nested_name (Leaf x) name = [(butlast name, x)]"
| "entries_items keep_nested_name [] name = []"
| "entries_items keep_nested_name ((key, v) # rest) name =
     entries keep_nested_name v ((if keep_nested_name then name else '''') @ key @ ''_'')
       @ entries_items keep_nested_name rest name"

definition leaf_keys :: "'v json \<Rightarrow> bool \<Rightarrow> string list" where
  "leaf_keys t keep_nested_name = map fst (entries keep_nested_name t '''')"

text \<open>New keys that neither repeat nor are already in the dictionary.\<close>

definition fresh :: "string list \<Rightarrow> 'a pydict \<Rightarrow> bool" where
  "fresh ks out = (distinct ks \<and> set ks \<inter> set (map fst out) = {})"

text \<open>A subtree without any leaf: groups all the way down.\<close>

fun leafless :: "'v json \<Rightarrow> bool"
and leafless_items :: "(string \<times> 'v json) list \<Rightarrow> bool"
where
  "leafless (Leaf x) = False"
| "leafless (Dict items) = leafless_items items"
| "leafless_items [] = True"
| "leafless_items ((key, v) # rest) = (leafless v \<and> leafless_items rest)"

text \<open>A one-level dictionary: every value is a leaf.\<close>

definition flat_dict :: "'v pydict \<Rightarrow> 'v json" where
  "flat_dict kvs = Dict (map (\<lambda>(k, v). (k, Leaf v)) kvs)"

section \<open>The hierarchical store\<close>

text \<open>
  What \<^verbatim>\<open>recursively_load_dict_contents_from_group\<close> reads of an \<^verbatim>\<open>h5py\<close> file: a
  tree of groups and datasets. A dataset holds an array, homogeneous by construction,
  with its shape; \<^verbatim>\<open>dtype.char\<close> follows from the kind of array (\<^verbatim>\<open>S\<close> for
  fixed-width byte strings, \<^verbatim>\<open>U\<close> for text, \<^verbatim>\<open>l\<close> for integers). A group has
  boolean attributes and named children, in the order \<^verbatim>\<open>items()\<close> lists them.
\<close>

datatype ndarray =
    BytesArr "nat list" "string list"
  | StrArr "nat list" "string list"
  | IntArr "nat list" "int list"

fun dtype_char :: "ndarray \<Rightarrow> char" where
  "dtype_char (BytesArr shape xs) = CHR ''S''"
| "dtype_char (StrArr shape xs) = CHR ''U''"
| "dtype_char (IntArr shape xs) = CHR ''l''"

datatype h5item =
    Dataset ndarray
  | Group "(string \<times> bool) list" "(string \<times> h5item) list"

text \<open>What the loader returns: arrays, lists of arrays, and dictionaries of these.\<close>

datatype pyval =
    Array ndarray
  | PyList "ndarray list"
  | PyDict "(string \<times> pyval) list"

text \<open>\<^verbatim>\<open>str(i)\<close> for \<^verbatim>\<open>i\<close> in \<^verbatim>\<open>range(...)\<close>: the decimal digits, most significant first.\<close>

definition digit_char :: "nat \<Rightarrow> char" where
  "digit_char d = ''0123456789'' ! d"

fun str_nat :: "nat \<Rightarrow> string" where
  "str_nat n = (if n < 10 then [digit_char n] else str_nat (n div 10) @ [digit_char (n mod 10)])"

declare str_nat.simps [simp del]

definition str_int :: "int \<Rightarrow> string" where
  "str_int i = (if i < 0 then CHR ''-'' # str_nat (nat (- i)) else str_nat (nat i))"

text \<open>
  \<^verbatim>\<open>v.astype(str)\<close>, element by element. \<^verbatim>\<open>numpy\<close> decodes byte strings as ASCII and
  raises \<^verbatim>\<open>UnicodeDecodeError\<close> on a byte above 127.
\<close>

definition ascii :: "string \<Rightarrow> bool" where
  "ascii s = list_all (\<lambda>c. (of_char c :: nat) < 128) s"

fun astype_str :: "ndarray \<Rightarrow> error + ndarray" where
  "astype_str (BytesArr shape xs) =
     (if list_all ascii xs then Inr (StrArr shape xs) else Inl UnicodeDecodeError)"
| "astype_str (StrArr shape xs) = Inr (StrArr shape xs)"
| "astype_str (IntArr shape xs) = Inr (StrArr shape (map str_int xs))"

text \<open>\<^verbatim>\<open>item.attrs.get(name, default)\<close>\<close>

definition attrs_get :: "(string \<times> bool) list \<Rightarrow> string \<Rightarrow> bool \<Rightarrow> bool" where
  "attrs_get attrs name dflt = (case map_of attrs name of None \<Rightarrow> dflt | Some b \<Rightarrow> b)"

text \<open>\<^verbatim>\<open>item[name]\<close> on a group: \<^verbatim>\<open>KeyError\<close> when the group has no such child.\<close>

definition getitem :: "(string \<times> h5item) list \<Rightarrow> string \<Rightarrow> error + h5item" where
  "getitem children name =
     (case map_of children name of None \<Rightarrow> Inl (KeyError name) | Some item \<Rightarrow> Inr item)"

text \<open>
  \<^verbatim>\<open>obj[()]\<close>: the whole value of a dataset, as stored. On a group the index must be a
  name, and \<^verbatim>\<open>h5py\<close> raises \<^verbatim>\<open>TypeError\<close> for the empty tuple.
\<close>

fun read_value :: "h5item \<Rightarrow> error + ndarray" where
  "read_value (Dataset v) = Inr v"
| "read_value (Group attrs children) = Inl TypeError"

text \<open>
  The comprehension \<^verbatim>\<open>[item[str(i)][()] for i in range(len(item))]\<close>, over the list of
  indices still to read.
\<close>

fun read_elements :: "(string \<times> h5item) list \<Rightarrow> nat list \<Rightarrow> error + ndarray list" where
  "read_elements children [] = Inr []"
| "read_elements children (i # rest) =
     (case getitem children (str_nat i) of
        Inl e \<Rightarrow> Inl e
      | Inr item \<Rightarrow>
          (case read_value item of
             Inl e \<Rightarrow> Inl e
           | Inr v \<Rightarrow>
               (case read_elements children rest of
                  Inl e \<Rightarrow> Inl e
                | Inr vs \<Rightarrow> Inr (v # vs))))"

text \<open>
  \<^verbatim>\<open>
  ans = {}
  for key, item in h5file[path].items():
      if isinstance(item, h5py.Dataset):
          dtype = item.dtype
          v = item[()]
          if dtype.char == "S":
              v = v.astype(str)
          ans[key] = v
      elif isinstance(item, h5py.Group):
          if item.attrs.get("_iterable", False):
              ans[key] = [item[str(i)][()] for i in range(len(item))]
          else:
              ans[key] = recursively_load_dict_contents_from_group(h5file, path + key + "/")
  return ans
  \<close>
  \<open>load_item\<close> is the value the loop body computes for one child, \<open>load_items\<close> the
  loop with its dictionary \<^verbatim>\<open>ans\<close>. The store is a tree whose names are unique within
  a group, so \<^verbatim>\<open>h5file[path + key + "/"]\<close> is the child \<^verbatim>\<open>item\<close> itself, and the
  recursive call is the loop over that child's children. \<^verbatim>\<open>len(item)\<close> is the number
  of children of the group.
\<close>

fun load_item :: "h5item \<Rightarrow> error + pyval"
and load_items :: "(string \<times> h5item) list \<Rightarrow> pyval pydict \<Rightarrow> error + pyval pydict"
where
  "load_item (Dataset v) =
     (if dtype_char v = CHR ''S''
      then (case astype_str v of Inl e \<Rightarrow> Inl e | Inr v' \<Rightarrow> Inr (Array v'))
      else Inr (Array v))"
| "load_item (Group attrs children) =
     (if attrs_get attrs ''_iterable'' False
      then (case read_elements children [0..<length children] of
              Inl e \<Rightarrow> Inl e
            | Inr vs \<Rightarrow> Inr (PyList vs))
      else (case load_items children [] of
              Inl e \<Rightarrow> Inl e
            | Inr d \<Rightarrow> Inr (PyDict d)))"
| "load_items [] ans = Inr ans"
| "load_items ((key, item) # rest) ans =
     (case load_item item of
        Inl e \<Rightarrow> Inl e
      | Inr v \<Rightarrow> load_items rest (dict_set key v ans))"

text \<open>
  The call on the open file, with the default \<^verbatim>\<open>path="/"\<close>: the loop over the children
  of the root group. A dataset has no \<^verbatim>\<open>items()\<close>.
\<close>

fun recursively_load_dict_contents_from_group :: "h5item \<Rightarrow> error + pyval pydict" where
  "recursively_load_dict_contents_from_group (Group attrs children) = load_items children []"
| "recursively_load_dict_contents_from_group (Dataset v) = Inl AttributeError"




subsection \<open>Opening and closing the file\<close>

text \<open>
  \<^verbatim>\<open>
  with h5py.File(filename, "r") as h5file:
      return recursively_load_dict_contents_from_group(h5file)
  \<close>
  The world outside the call: the files that exist, the files this process holds open,
  and the sequence of opens and closes so far. \<^verbatim>\<open>h5py.File(filename, "r")\<close> raises
  \<^verbatim>\<open>OSError\<close> for a file that does not exist, and then nothing was opened. The
  \<^verbatim>\<open>with\<close> statement runs the body and then closes the file, whether the body returned
  or raised, and passes the body's result or exception on.
\<close>

datatype event = Opened string | Closed string

record world =
  files :: "string \<Rightarrow> h5item option"
  open_files :: "string list"
  trace :: "event list"

definition File_open :: "string \<Rightarrow> world \<Rightarrow> (error + h5item) \<times> world" where
  "File_open filename w =
     (case files w filename of
        None \<Rightarrow> (Inl (OSError filename), w)
      | Some root \<Rightarrow>
          (Inr root,
           w\<lparr>open_files := filename # open_files w, trace := trace w @ [Opened filename]\<rparr>))"

definition File_close :: "string \<Rightarrow> world \<Rightarrow> world" where
  "File_close filename w =
     w\<lparr>open_files := remove1 filename (open_files w), trace := trace w @ [Closed filename]\<rparr>"

definition load_dict_from_hdf5 :: "string \<Rightarrow> world \<Rightarrow> (error + pyval pydict) \<times> world" where
  "load_dict_from_hdf5 filename w =
     (case File_open filename w of
        (Inl e, w') \<Rightarrow> (Inl e, w')
      | (Inr h5file, w') \<Rightarrow>
          (recursively_load_dict_contents_from_group h5file, File_close filename w'))"

section \<open>Paths of a tree and keys split on the separator\<close>

text \<open>The leaves of a tree, each with the names on the way from the root to it.\<close>

fun leaf_paths :: "'v json \<Rightarrow> (string list \<times> 'v) list"
and leaf_paths_items :: "(string \<times> 'v json) list \<Rightarrow> (string list \<times> 'v) list"
where
  "leaf_paths (Leaf x) = [([], x)]"
| "leaf_paths (Dict items) = leaf_paths_items items"
| "leaf_paths_items [] = []"
| "leaf_paths_items ((key, v) # rest) =
     map (\<lambda>(p, x). (key # p, x)) (leaf_paths v) @ leaf_paths_items rest"

text \<open>
  Modelled from the spec: the re-nesting of a flat mapping "by splitting each key on the
  separator", which the repository does not implement. \<open>split_sep\<close> is
  \<^verbatim>\<open>key.split("_")\<close>: the pieces between the separators, one empty piece for the
  empty string.
\<close>

fun split_sep :: "string \<Rightarrow> string list" where
  "split_sep [] = [[]]"
| "split_sep (c # cs) =
     (if c = CHR ''_'' then [] # split_sep cs
      else (case split_sep cs of [] \<Rightarrow> [[c]] | w # ws \<Rightarrow> (c # w) # ws))"

text \<open>
  Re-nesting a flat mapping puts each value at the path its key splits into.
\<close>

definition renest_paths :: "'v pydict \<Rightarrow> (string list \<times> 'v) list" where
  "renest_paths flat = map (\<lambda>(k, v). (split_sep k, v)) flat"

text \<open>No name in the tree contains the separator.\<close>

fun sep_free :: "'v json \<Rightarrow> bool"
and sep_free_items :: "(string \<times> 'v json) list \<Rightarrow> bool"
where
  "sep_free (Leaf x) = True"
| "sep_free (Dict items) = sep_free_items items"
| "sep_free_items [] = True"
| "sep_free_items ((key, v) # rest) =
     (CHR ''_'' \<notin> set key \<and> sep_free v \<and> sep_free_items rest)"

text \<open>The name the traversal has accumulated below a path: every segment followed by the separator.\<close>

definition joined :: "string list \<Rightarrow> string" where
  "joined p = concat (map (\<lambda>k. k @ ''_'') p)"

section \<open>Properties of the flattener\<close>

lemma dict_set_fresh: "\<not> in_out k out \<Longrightarrow> dict_set k v out = out @ [(k, v)]"
  by (induction out) (auto simp: in_out_def)

lemma flatten_entries:
  "flatten keep t name out =
     (if fresh (map fst (entries keep t name)) out
      then Inr (out @ entries keep t name)
      else Inl (ValueError ''Multiple entries with identical names''))"
  "flatten_items keep items name out =
     (if fresh (map fst (entries_items keep items name)) out
      then Inr (out @ entries_items keep items name)
      else Inl (ValueError ''Multiple entries with identical names''))"
proof (induction keep t name out and keep items name out rule: flatten_flatten_items.induct)
  case (1 keep items name out)
  then show ?case by simp
next
  case (2 keep x name out)
  show ?case by (simp add: fresh_def dict_set_fresh) (simp add: in_out_def)
next
  case (3 keep name out)
  show ?case by (simp add: fresh_def)
next
  case (4 keep key v rest name out)
  let ?n = "(if keep then name else '''') @ key @ ''_''"
  let ?e1 = "entries keep v ?n"
  let ?e2 = "entries_items keep rest name"
  have IH1: "flatten keep v ?n out =
     (if fresh (map fst ?e1) out then Inr (out @ ?e1)
      else Inl (ValueError ''Multiple entries with identical names''))"
    by (rule "4.IH"(1))
  have unf: "flatten_items keep ((key, v) # rest) name out =
     (case flatten keep v ?n out of Inl e \<Rightarrow> Inl e
      | Inr out' \<Rightarrow> flatten_items keep rest name out')"
    by simp
  have ent: "entries_items keep ((key, v) # rest) name = ?e1 @ ?e2"
    by simp
  show ?case
  proof (cases "fresh (map fst ?e1) out")
    case True
    then have f: "flatten keep v ?n out = Inr (out @ ?e1)"
      using IH1 by simp
    have IH2: "flatten_items keep rest name (out @ ?e1) =
       (if fresh (map fst ?e2) (out @ ?e1) then Inr ((out @ ?e1) @ ?e2)
        else Inl (ValueError ''Multiple entries with identical names''))"
      by (rule "4.IH"(2)[OF f])
    have "fresh (map fst (?e1 @ ?e2)) out = fresh (map fst ?e2) (out @ ?e1)"
      using True unfolding fresh_def map_append set_append distinct_append by blast
    then show ?thesis
      unfolding unf ent f using IH2 by simp
  next
    case False
    then have f: "flatten keep v ?n out = Inl (ValueError ''Multiple entries with identical names'')"
      using IH1 by simp
    have "\<not> fresh (map fst (?e1 @ ?e2)) out"
      using False unfolding fresh_def map_append set_append distinct_append by blast
    then show ?thesis
      unfolding unf ent f by simp
  qed
qed

lemma flatten_json_entries:
  "flatten_json t keep =
     (if distinct (leaf_keys t keep) then Inr (entries keep t '''')
      else Inl (ValueError ''Multiple entries with identical names''))"
  by (simp add: flatten_json_def leaf_keys_def flatten_entries(1) fresh_def)

lemma entries_flat:
  "entries_items keep (map (\<lambda>(k, v). (k, Leaf v)) kvs) '''' = kvs"
  by (induction kvs) auto

lemma leafless_entries:
  "leafless (t :: 'v json) \<Longrightarrow> entries keep t name = []"
  "leafless_items (items :: (string \<times> 'v json) list) \<Longrightarrow> entries_items keep items name = []"
  by (induction keep t name and keep items name rule: entries_entries_items.induct) auto

lemma entries_items_append:
  "entries_items keep (pre @ post) name =
     entries_items keep pre name @ entries_items keep post name"
  by (induction pre) auto

text \<open>
  C6. For the tree \<^verbatim>\<open>{a: {b: 1, c: 2}}\<close>, \<^verbatim>\<open>flatten_json\<close> returns exactly
  \<^verbatim>\<open>{"a_b": 1, "a_c": 2}\<close> when \<^verbatim>\<open>keep_nested_name\<close> is true and exactly
  \<^verbatim>\<open>{"b": 1, "c": 2}\<close> when it is false.
\<close>

theorem flatten_json_example:
  "flatten_json (Dict [(''a'', Dict [(''b'', Leaf (1::int)), (''c'', Leaf 2)])]) True
     = Inr [(''a_b'', 1), (''a_c'', 2)]
   \<and> flatten_json (Dict [(''a'', Dict [(''b'', Leaf (1::int)), (''c'', Leaf 2)])]) False
     = Inr [(''b'', 1), (''c'', 2)]"
  by (simp add: flatten_json_def in_out_def)

text \<open>
  C8. A bare leaf passed as the root is flattened, in both naming modes, to the one-entry
  mapping whose key is the empty string and whose value is the leaf.
\<close>

theorem flatten_json_bare_leaf:
  "flatten_json (Leaf x) keep_nested_name = Inr [('''', x)]"
  by (simp add: flatten_json_def in_out_def)

text \<open>
  C1, as the code has it. Whenever the keys computed for two leaves coincide, in either
  naming mode, \<^verbatim>\<open>flatten_json\<close> returns no mapping: it raises
  \<^verbatim>\<open>ValueError("Multiple entries with identical names")\<close>, an error with a fixed
  message that does not carry the key.
\<close>

theorem flatten_json_collision:
  "\<not> distinct (leaf_keys t keep_nested_name) \<Longrightarrow>
     flatten_json t keep_nested_name =
       Inl (ValueError ''Multiple entries with identical names'')"
  by (simp add: flatten_json_entries)

theorem flatten_json_collision_witness:
  "\<not> distinct (leaf_keys (Dict [(''a'', Leaf (1::int)), (''b'', Dict [(''a'', Leaf 2)])]) False)
   \<and> flatten_json (Dict [(''a'', Leaf (1::int)), (''b'', Dict [(''a'', Leaf 2)])]) False =
       Inl (ValueError ''Multiple entries with identical names'')"
proof -
  have h: "\<not> distinct (leaf_keys (Dict [(''a'', Leaf (1::int)), (''b'', Dict [(''a'', Leaf 2)])]) False)"
    by (simp add: leaf_keys_def)
  show ?thesis
    by (rule conjI[OF h flatten_json_collision[OF h]])
qed

text \<open>
  C1 as stated fails: for \<^verbatim>\<open>{a: 1, b: {a: 2}}\<close> with \<^verbatim>\<open>keep_nested_name=False\<close> the
  error raised carries the fixed message, not the offending key \<^verbatim>\<open>"a"\<close>.
\<close>

theorem flatten_json_error_has_no_key:
  "flatten_json (Dict [(''a'', Leaf (1::int)), (''b'', Dict [(''a'', Leaf 2)])]) False =
     Inl (ValueError ''Multiple entries with identical names'')
   \<and> flatten_json (Dict [(''a'', Leaf (1::int)), (''b'', Dict [(''a'', Leaf 2)])]) False \<noteq>
     Inl (ValueError ''a'')"
  by (simp add: flatten_json_def in_out_def)

text \<open>
  C7. A one-level mapping whose keys are pairwise distinct and whose values are all leaves
  is returned as it is, entry for entry, in either naming mode.
\<close>

theorem flatten_json_flat:
  "distinct (map fst kvs) \<Longrightarrow> flatten_json (flat_dict kvs) keep_nested_name = Inr kvs"
  by (simp add: flatten_json_entries leaf_keys_def flat_dict_def entries_flat)

theorem flatten_json_flat_witness:
  "distinct (map fst [(''lr'', 3::int), (''seed'', 7)])
   \<and> flatten_json (flat_dict [(''lr'', 3::int), (''seed'', 7)]) True = Inr [(''lr'', 3), (''seed'', 7)]
   \<and> flatten_json (flat_dict [(''lr'', 3::int), (''seed'', 7)]) False = Inr [(''lr'', 3), (''seed'', 7)]"
proof -
  have h: "distinct (map fst [(''lr'', 3::int), (''seed'', 7)])"
    by simp
  show ?thesis
    by (intro conjI h flatten_json_flat[OF h])
qed

text \<open>
  C10. Flattening the empty mapping gives the empty mapping, and a subtree without
  leaves (an empty group, or groups nested around empty groups) adds no entry and raises
  no error: the traversal leaves the output as it found it, so the result is the same as
  if the subtree were not there.
\<close>

theorem flatten_empty_groups:
  assumes "leafless t"
  shows "flatten_json (Dict [] :: 'v json) keep_nested_name = Inr []
    \<and> flatten keep_nested_name (t :: 'v json) name out = Inr out
    \<and> flatten_items keep_nested_name (pre @ (key, t) # post) name out =
        flatten_items keep_nested_name (pre @ post) name out"
  using assms
  by (simp add: flatten_json_def flatten_entries entries_items_append leafless_entries fresh_def)

theorem flatten_empty_groups_witness:
  "leafless (Dict [(''x'', Dict [])] :: int json)
   \<and> flatten_json (Dict [] :: int json) True = Inr []
   \<and> flatten True (Dict [(''x'', Dict [])] :: int json) '''' [] = Inr []
   \<and> flatten_items True ([(''a'', Leaf 1)] @ (''e'', Dict [(''x'', Dict [])]) # [(''b'', Leaf (2::int))]) '''' [] =
       flatten_items True ([(''a'', Leaf 1)] @ [(''b'', Leaf 2)]) '''' []
   \<and> flatten_items True ([(''a'', Leaf 1)] @ [(''b'', Leaf (2::int))]) '''' [] =
       Inr [(''a'', 1), (''b'', 2)]"
proof -
  have h: "leafless (Dict [(''x'', Dict [])] :: int json)"
    by simp
  have e: "flatten_items True ([(''a'', Leaf 1)] @ [(''b'', Leaf (2::int))]) '''' [] =
       Inr [(''a'', 1), (''b'', 2)]"
    by (simp add: in_out_def)
  show ?thesis
    using flatten_empty_groups[OF h, of True "''''" "[]" "[(''a'', Leaf 1)]" "''e''" "[(''b'', Leaf 2)]"] h e
    by blast
qed

section \<open>Properties of the loader\<close>

lemma read_elements_datasets:
  "\<forall>i \<in> set idx. map_of children (str_nat i) = Some (Dataset (vs ! i)) \<Longrightarrow>
     read_elements children idx = Inr (map (\<lambda>i. vs ! i) idx)"
  by (induction idx) (auto simp: getitem_def)








text \<open>
  C2 at a failing input. The same fixed-width byte string is stored twice: as the dataset
  \<^verbatim>\<open>label\<close> and as element \<^verbatim>\<open>0\<close> of the group \<^verbatim>\<open>names\<close>, marked \<^verbatim>\<open>_iterable\<close>. The
  dataset is decoded to text; the element of the marked group comes back as the raw
  bytes, because the comprehension reads \<^verbatim>\<open>item[str(i)][()]\<close> and never looks at the
  element type.
\<close>

theorem iterable_elements_not_decoded:
  "recursively_load_dict_contents_from_group
     (Group []
       [(''label'', Dataset (BytesArr [] [''ab''])),
        (''names'', Group [(''_iterable'', True)]
           [(''0'', Dataset (BytesArr [] [''ab''])), (''1'', Dataset (BytesArr [] [''cd'']))])])
   = Inr [(''label'', Array (StrArr [] [''ab''])),
          (''names'', PyList [BytesArr [] [''ab''], BytesArr [] [''cd'']])]"
  by (simp add: attrs_get_def getitem_def ascii_def str_nat.simps digit_char_def)

text \<open>
  C3, as the code has it. For a group marked \<^verbatim>\<open>_iterable\<close> the length is the number of
  all its children. When the group has \<open>n\<close> children and the child named by the decimal
  form of each index below \<open>n\<close> is a dataset, the loader returns the \<open>n\<close> stored values
  in ascending index order, whatever the order in which the store lists the children.
\<close>

theorem ordered_group_in_index_order:
  assumes "attrs_get attrs ''_iterable'' False"
    and "length children = length vs"
    and "\<forall>i < length vs. map_of children (str_nat i) = Some (Dataset (vs ! i))"
  shows "load_item (Group attrs children) = Inr (PyList vs)"
proof -
  have "read_elements children [0..<length vs] = Inr (map (\<lambda>i. vs ! i) [0..<length vs])"
    using assms(3) by (intro read_elements_datasets) simp
  then have "read_elements children [0..<length children] = Inr vs"
    by (simp add: assms(2) map_nth)
  then show ?thesis
    using assms(1) by simp
qed

theorem ordered_group_in_index_order_witness:
  "load_item (Group [(''_iterable'', True)]
     [(''3'', Dataset (IntArr [] [13])), (''0'', Dataset (IntArr [] [10])),
      (''4'', Dataset (IntArr [] [14])), (''2'', Dataset (IntArr [] [12])),
      (''1'', Dataset (IntArr [] [11]))])
   = Inr (PyList [IntArr [] [10], IntArr [] [11], IntArr [] [12], IntArr [] [13], IntArr [] [14]])"
proof -
  let ?children = "[(''3'', Dataset (IntArr [] [13])), (''0'', Dataset (IntArr [] [10])),
      (''4'', Dataset (IntArr [] [14])), (''2'', Dataset (IntArr [] [12])),
      (''1'', Dataset (IntArr [] [11]))]"
  let ?vs = "[IntArr [] [10], IntArr [] [11], IntArr [] [12], IntArr [] [13], IntArr [] [14]]"
  have a: "attrs_get [(''_iterable'', True)] ''_iterable'' False"
    by (simp add: attrs_get_def)
  have l: "length ?children = length ?vs"
    by simp
  have "\<forall>i < 5. map_of ?children (str_nat i) = Some (Dataset (?vs ! i))"
    by (simp add: All_less_Suc numeral_eq_Suc str_nat.simps digit_char_def)
  then have m: "\<forall>i < length ?vs. map_of ?children (str_nat i) = Some (Dataset (?vs ! i))"
    by simp
  show ?thesis
    by (rule ordered_group_in_index_order[OF a l m])
qed

text \<open>
  C3 as stated fails: a marked group with the children \<^verbatim>\<open>"0"\<close>, \<^verbatim>\<open>"1"\<close> and
  \<^verbatim>\<open>"meta"\<close> has two integer-named children, but the loader takes the length 3 from
  \<^verbatim>\<open>len(item)\<close>, asks for \<^verbatim>\<open>"2"\<close> and raises \<^verbatim>\<open>KeyError\<close>; no two-element sequence is
  returned.
\<close>

theorem ordered_group_length_counts_all_children:
  "load_item (Group [(''_iterable'', True)]
     [(''0'', Dataset (IntArr [] [10])), (''1'', Dataset (IntArr [] [11])),
      (''meta'', Dataset (IntArr [] [99]))])
   = Inl (KeyError ''2'')"
  by (simp add: attrs_get_def getitem_def upt_rec str_nat.simps digit_char_def)




text \<open>
  C9. \<^verbatim>\<open>load_dict_from_hdf5\<close> opens the file, runs the traversal and closes the file,
  whatever the traversal gave: its result, a mapping or an error, is passed on, the set
  of open files after the call is the one before it, and the call adds to the trace one
  open followed by one close. A file that cannot be opened leaves nothing to close.
\<close>

theorem load_dict_from_hdf5_closes:
  "fst (load_dict_from_hdf5 filename w) =
     (case files w filename of
        None \<Rightarrow> Inl (OSError filename)
      | Some root \<Rightarrow> recursively_load_dict_contents_from_group root)
   \<and> open_files (snd (load_dict_from_hdf5 filename w)) = open_files w
   \<and> trace (snd (load_dict_from_hdf5 filename w)) =
       trace w @ (case files w filename of
                    None \<Rightarrow> []
                  | Some root \<Rightarrow> [Opened filename, Closed filename])"
  by (simp add: load_dict_from_hdf5_def File_open_def File_close_def split: option.splits)

theorem load_dict_from_hdf5_closes_witness:
  "fst (load_dict_from_hdf5 ''bad.h5''
      \<lparr>files = [''bad.h5'' \<mapsto> Group [] [(''seq'', Group [(''_iterable'', True)]
                   [(''0'', Dataset (IntArr [] [10])), (''2'', Dataset (IntArr [] [12]))])],
                ''ok.h5'' \<mapsto> Group [] [(''x'', Dataset (IntArr [] [5]))]],
       open_files = [], trace = []\<rparr>) = Inl (KeyError ''1'')
   \<and> open_files (snd (load_dict_from_hdf5 ''bad.h5''
      \<lparr>files = [''bad.h5'' \<mapsto> Group [] [(''seq'', Group [(''_iterable'', True)]
                   [(''0'', Dataset (IntArr [] [10])), (''2'', Dataset (IntArr [] [12]))])],
                ''ok.h5'' \<mapsto> Group [] [(''x'', Dataset (IntArr [] [5]))]],
       open_files = [], trace = []\<rparr>)) = []
   \<and> trace (snd (load_dict_from_hdf5 ''bad.h5''
      \<lparr>files = [''bad.h5'' \<mapsto> Group [] [(''seq'', Group [(''_iterable'', True)]
                   [(''0'', Dataset (IntArr [] [10])), (''2'', Dataset (IntArr [] [12]))])],
                ''ok.h5'' \<mapsto> Group [] [(''x'', Dataset (IntArr [] [5]))]],
       open_files = [], trace = []\<rparr>)) = [Opened ''bad.h5'', Closed ''bad.h5'']
   \<and> fst (load_dict_from_hdf5 ''ok.h5''
      \<lparr>files = [''bad.h5'' \<mapsto> Group [] [(''seq'', Group [(''_iterable'', True)]
                   [(''0'', Dataset (IntArr [] [10])), (''2'', Dataset (IntArr [] [12]))])],
                ''ok.h5'' \<mapsto> Group [] [(''x'', Dataset (IntArr [] [5]))]],
       open_files = [], trace = []\<rparr>) = Inr [(''x'', Array (IntArr [] [5]))]
   \<and> trace (snd (load_dict_from_hdf5 ''ok.h5''
      \<lparr>files = [''bad.h5'' \<mapsto> Group [] [(''seq'', Group [(''_iterable'', True)]
                   [(''0'', Dataset (IntArr [] [10])), (''2'', Dataset (IntArr [] [12]))])],
                ''ok.h5'' \<mapsto> Group [] [(''x'', Dataset (IntArr [] [5]))]],
       open_files = [], trace = []\<rparr>)) = [Opened ''ok.h5'', Closed ''ok.h5'']"
  using
    load_dict_from_hdf5_closes[of "''bad.h5''"
      "\<lparr>files = [''bad.h5'' \<mapsto> Group [] [(''seq'', Group [(''_iterable'', True)]
                   [(''0'', Dataset (IntArr [] [10])), (''2'', Dataset (IntArr [] [12]))])],
                ''ok.h5'' \<mapsto> Group [] [(''x'', Dataset (IntArr [] [5]))]],
       open_files = [], trace = []\<rparr>"]
    load_dict_from_hdf5_closes[of "''ok.h5''"
      "\<lparr>files = [''bad.h5'' \<mapsto> Group [] [(''seq'', Group [(''_iterable'', True)]
                   [(''0'', Dataset (IntArr [] [10])), (''2'', Dataset (IntArr [] [12]))])],
                ''ok.h5'' \<mapsto> Group [] [(''x'', Dataset (IntArr [] [5]))]],
       open_files = [], trace = []\<rparr>"]
  by (simp add: attrs_get_def getitem_def upt_rec str_nat.simps digit_char_def)

section \<open>Flattening and splitting the keys again\<close>

lemma joined_Cons: "joined (k # p) = k @ CHR ''_'' # joined p"
  by (simp add: joined_def)

lemma joined_nonempty: "p \<noteq> [] \<Longrightarrow> joined p \<noteq> []"
  by (cases p) (simp_all add: joined_def)

lemma split_sep_word: "CHR ''_'' \<notin> set w \<Longrightarrow> split_sep w = [w]"
  by (induction w) auto

lemma split_sep_append:
  "CHR ''_'' \<notin> set w \<Longrightarrow> split_sep (w @ CHR ''_'' # rest) = w # split_sep rest"
  by (induction w) auto

lemma split_joined:
  "p \<noteq> [] \<Longrightarrow> \<forall>k \<in> set p. CHR ''_'' \<notin> set k \<Longrightarrow> split_sep (butlast (joined p)) = p"
proof (induction p)
  case Nil
  then show ?case by simp
next
  case (Cons k p)
  show ?case
  proof (cases "p = []")
    case True
    then show ?thesis
      using Cons.prems by (simp add: joined_def split_sep_word)
  next
    case False
    then have ne: "joined p \<noteq> []"
      by (rule joined_nonempty)
    have "butlast (joined (k # p)) = k @ CHR ''_'' # butlast (joined p)"
      using ne by (simp add: joined_Cons butlast_append)
    then show ?thesis
      using Cons False by (simp add: split_sep_append)
  qed
qed

lemma entries_paths:
  "entries True (t :: 'v json) name =
     map (\<lambda>(p, x). (butlast (name @ joined p), x)) (leaf_paths t)"
  "entries_items True (items :: (string \<times> 'v json) list) name =
     map (\<lambda>(p, x). (butlast (name @ joined p), x)) (leaf_paths_items items)"
proof (induction t and items arbitrary: name and name rule: leaf_paths_leaf_paths_items.induct)
  case (1 x)
  show ?case by (simp add: joined_def)
next
  case (2 items)
  then show ?case by simp
next
  case 3
  show ?case by simp
next
  case (4 key v rest)
  have step: "map (\<lambda>(p, x). (butlast ((name @ key @ ''_'') @ joined p), x)) (leaf_paths v) =
      map (\<lambda>(p, x). (butlast (name @ joined p), x))
        (map (\<lambda>(p, x). (key # p, x)) (leaf_paths v))"
    by (simp add: joined_Cons case_prod_beta)
  have "entries_items True ((key, v) # rest) name =
      entries True v (name @ key @ ''_'') @ entries_items True rest name"
    by simp
  also have "\<dots> = map (\<lambda>(p, x). (butlast ((name @ key @ ''_'') @ joined p), x)) (leaf_paths v)
      @ map (\<lambda>(p, x). (butlast (name @ joined p), x)) (leaf_paths_items rest)"
    by (simp only: "4.IH")
  also have "\<dots> = map (\<lambda>(p, x). (butlast (name @ joined p), x))
      (map (\<lambda>(p, x). (key # p, x)) (leaf_paths v) @ leaf_paths_items rest)"
    by (simp only: step map_append)
  finally show ?case by simp
qed

lemma leaf_paths_items_nonempty:
  "(p, x) \<in> set (leaf_paths_items items) \<Longrightarrow> p \<noteq> []"
  by (induction items) auto

lemma leaf_paths_sep_free:
  "sep_free (t :: 'v json) \<Longrightarrow> (p, x) \<in> set (leaf_paths t) \<Longrightarrow> k \<in> set p \<Longrightarrow>
     CHR ''_'' \<notin> set k"
  "sep_free_items (items :: (string \<times> 'v json) list) \<Longrightarrow>
     (p, x) \<in> set (leaf_paths_items items) \<Longrightarrow> k \<in> set p \<Longrightarrow> CHR ''_'' \<notin> set k"
  by (induction t and items arbitrary: p and p rule: leaf_paths_leaf_paths_items.induct) auto

text \<open>
  C5, as the code has it. For a tree whose root is a group, whose names do not contain
  the separator \<^verbatim>\<open>_\<close> and whose full-path names are unique (so that
  \<^verbatim>\<open>flatten_json\<close> with \<^verbatim>\<open>keep_nested_name=True\<close> succeeds), splitting each key of the
  flattened mapping on the separator gives back, entry for entry, the path of each leaf
  of the tree with the leaf's value: the same leaf values at the same paths.
\<close>

theorem flatten_split_roundtrip:
  assumes "sep_free (Dict items)"
    and "flatten_json (Dict items) True = Inr flat"
  shows "renest_paths flat = leaf_paths (Dict items)"
proof -
  let ?L = "leaf_paths_items items"
  let ?g = "\<lambda>(p, x). (butlast (joined p), x)"
  let ?f = "\<lambda>(k, v). (split_sep k, v)"
  have sf: "sep_free_items items"
    using assms(1) by simp
  have "(if distinct (leaf_keys (Dict items) True) then Inr (entries True (Dict items) '''')
         else Inl (ValueError ''Multiple entries with identical names'')) = Inr flat"
    using assms(2) by (simp only: flatten_json_entries)
  then have "entries True (Dict items) '''' = flat"
    by (cases "distinct (leaf_keys (Dict items) True)") simp_all
  then have flat: "flat = map ?g ?L"
    by (simp add: entries_paths(2)[of items "''''"])
  have id: "map (?f \<circ> ?g) ?L = ?L"
  proof (rule map_idI)
    fix px
    assume m: "px \<in> set ?L"
    obtain p x where px: "px = (p, x)"
      by (cases px)
    have mp: "(p, x) \<in> set ?L"
      using m unfolding px .
    then have ne: "p \<noteq> []"
      by (rule leaf_paths_items_nonempty)
    have "\<forall>k \<in> set p. CHR ''_'' \<notin> set k"
    proof
      fix k
      assume "k \<in> set p"
      with sf mp show "CHR ''_'' \<notin> set k"
        by (rule leaf_paths_sep_free(2))
    qed
    with ne have "split_sep (butlast (joined p)) = p"
      by (rule split_joined)
    then show "(?f \<circ> ?g) px = px"
      by (simp add: px)
  qed
  have "renest_paths flat = map ?f (map ?g ?L)"
    by (simp only: renest_paths_def flat)
  also have "\<dots> = map (?f \<circ> ?g) ?L"
    by (simp only: map_map)
  also have "\<dots> = ?L"
    by (rule id)
  finally show ?thesis
    by simp
qed

theorem flatten_split_roundtrip_witness:
  "sep_free (Dict [(''a'', Dict [(''b'', Leaf (1::int)), (''c'', Leaf 2)]), (''d'', Leaf 3)])
   \<and> flatten_json (Dict [(''a'', Dict [(''b'', Leaf (1::int)), (''c'', Leaf 2)]), (''d'', Leaf 3)]) True
       = Inr [(''a_b'', 1), (''a_c'', 2), (''d'', 3)]
   \<and> renest_paths [(''a_b'', 1::int), (''a_c'', 2), (''d'', 3)]
       = leaf_paths (Dict [(''a'', Dict [(''b'', Leaf (1::int)), (''c'', Leaf 2)]), (''d'', Leaf 3)])
   \<and> leaf_paths (Dict [(''a'', Dict [(''b'', Leaf (1::int)), (''c'', Leaf 2)]), (''d'', Leaf 3)])
       = [([''a'', ''b''], 1), ([''a'', ''c''], 2), ([''d''], 3)]"
proof -
  have s: "sep_free (Dict [(''a'', Dict [(''b'', Leaf (1::int)), (''c'', Leaf 2)]), (''d'', Leaf 3)])"
    by simp
  have f: "flatten_json (Dict [(''a'', Dict [(''b'', Leaf (1::int)), (''c'', Leaf 2)]), (''d'', Leaf 3)]) True
       = Inr [(''a_b'', 1), (''a_c'', 2), (''d'', 3)]"
    by (simp add: flatten_json_def in_out_def)
  have l: "leaf_paths (Dict [(''a'', Dict [(''b'', Leaf (1::int)), (''c'', Leaf 2)]), (''d'', Leaf 3)])
       = [([''a'', ''b''], 1), ([''a'', ''c''], 2), ([''d''], 3)]"
    by simp
  show ?thesis
    by (intro conjI s f l flatten_split_roundtrip[OF s f])
qed

text \<open>
  C5 as stated fails: the tree \<^verbatim>\<open>{"a_b": 1}\<close> has a single leaf, hence unique full-path
  names, yet its flattened key \<^verbatim>\<open>"a_b"\<close> splits into the path \<^verbatim>\<open>a\<close>, \<^verbatim>\<open>b\<close>, which is
  not the path of the leaf in the tree.
\<close>

theorem roundtrip_fails_on_separator_in_name:
  "flatten_json (Dict [(''a_b'', Leaf (1::int))]) True = Inr [(''a_b'', 1)]
   \<and> renest_paths [(''a_b'', 1::int)] = [([''a'', ''b''], 1)]
   \<and> leaf_paths (Dict [(''a_b'', Leaf (1::int))]) = [([''a_b''], 1)]
   \<and> renest_paths [(''a_b'', 1::int)] \<noteq> leaf_paths (Dict [(''a_b'', Leaf (1::int))])"
  by (simp add: flatten_json_def in_out_def renest_paths_def)

end
